theory Spec2Isabelle
  imports Main "HOL-Library.Sublist"
begin

section \<open>YAML documents\<close>

text \<open>
  The repository holds two pipeline descriptors written in YAML: the sample config
  \<^verbatim>\<open>test/samples/pipeline/test_pipeline.yaml\<close> and the example embedded in the
  "YAML Configs" section of the Pipelines tutorial. A document is kept as the tree a YAML
  loader returns: scalars, sequences, and mappings as association lists, so that the order
  of the keys and every key of the file stay visible.
\<close>

datatype yaml =
    YNull
  | YBool bool
  | YInt int
  | YStr string
  | YSeq "yaml list"
  | YMap "(string \<times> yaml) list"

fun is_mapping :: "yaml \<Rightarrow> bool" where
  "is_mapping (YMap kvs) = True"
| "is_mapping v = False"

fun is_sequence :: "yaml \<Rightarrow> bool" where
  "is_sequence (YSeq xs) = True"
| "is_sequence v = False"

fun is_literal :: "yaml \<Rightarrow> bool" where
  "is_literal (YSeq xs) = False"
| "is_literal (YMap kvs) = False"
| "is_literal v = True"

fun yaml_keys :: "yaml \<Rightarrow> string list" where
  "yaml_keys (YMap kvs) = map fst kvs"
| "yaml_keys v = []"

fun yaml_get :: "yaml \<Rightarrow> string \<Rightarrow> yaml option" where
  "yaml_get (YMap kvs) k = map_of kvs k"
| "yaml_get v k = None"

fun yaml_items :: "yaml \<Rightarrow> yaml list" where
  "yaml_items (YSeq xs) = xs"
| "yaml_items v = []"

fun yaml_str :: "yaml \<Rightarrow> string option" where
  "yaml_str (YStr s) = Some s"
| "yaml_str v = None"

subsection \<open>The sample config\<close>

text \<open>\<^verbatim>\<open>test/samples/pipeline/test_pipeline.yaml\<close>, key by key and in the file's order.\<close>

definition sample_components :: "yaml list" where
  "sample_components =
    [ YMap [ (''name'', YStr ''Reader''),
             (''type'', YStr ''FARMReader''),
             (''params'', YMap [ (''no_ans_boost'', YInt (- 10)),
                                 (''model_name_or_path'', YStr ''deepset/roberta-base-squad2'') ]) ],
      YMap [ (''name'', YStr ''ESRetriever''),
             (''type'', YStr ''ElasticsearchRetriever''),
             (''params'', YMap [ (''document_store'', YStr ''DocumentStore''),
                                 (''custom_query'', YNull) ]) ],
      YMap [ (''name'', YStr ''DocumentStore''),
             (''type'', YStr ''ElasticsearchDocumentStore''),
             (''params'', YMap [ (''index'', YStr ''haystack_test''),
                                 (''label_index'', YStr ''haystack_test_label'') ]) ],
      YMap [ (''name'', YStr ''PDFConverter''),
             (''type'', YStr ''PDFToTextConverter''),
             (''params'', YMap [ (''remove_numeric_tables'', YBool False) ]) ],
      YMap [ (''name'', YStr ''Preprocessor''),
             (''type'', YStr ''PreProcessor''),
             (''params'', YMap [ (''clean_whitespace'', YBool True) ]) ] ]"

definition sample_query_pipeline :: yaml where
  "sample_query_pipeline =
    YMap [ (''name'', YStr ''query_pipeline''),
           (''type'', YStr ''Query''),
           (''nodes'', YSeq
              [ YMap [ (''name'', YStr ''ESRetriever''), (''inputs'', YSeq [YStr ''Query'']) ],
                YMap [ (''name'', YStr ''Reader''), (''inputs'', YSeq [YStr ''ESRetriever'']) ] ]) ]"

definition sample_indexing_pipeline :: yaml where
  "sample_indexing_pipeline =
    YMap [ (''name'', YStr ''indexing_pipeline''),
           (''type'', YStr ''Indexing''),
           (''nodes'', YSeq
              [ YMap [ (''name'', YStr ''PDFConverter''), (''inputs'', YSeq [YStr ''File'']) ],
                YMap [ (''name'', YStr ''Preprocessor''), (''inputs'', YSeq [YStr ''PDFConverter'']) ],
                YMap [ (''name'', YStr ''ESRetriever''), (''inputs'', YSeq [YStr ''Preprocessor'']) ],
                YMap [ (''name'', YStr ''DocumentStore''), (''inputs'', YSeq [YStr ''ESRetriever'']) ] ]) ]"

definition test_pipeline_yaml :: yaml where
  "test_pipeline_yaml =
    YMap [ (''version'', YStr ''0.7''),
           (''components'', YSeq sample_components),
           (''pipelines'', YSeq [sample_query_pipeline, sample_indexing_pipeline]) ]"

subsection \<open>The tutorial's embedded example\<close>

text \<open>The YAML block of the tutorial's "YAML Configs" section (its comments left out).\<close>

definition tutorial_components :: "yaml list" where
  "tutorial_components =
    [ YMap [ (''name'', YStr ''MyReader''),
             (''type'', YStr ''FARMReader''),
             (''params'', YMap [ (''no_ans_boost'', YInt (- 10)),
                                 (''model_name_or_path'', YStr ''deepset/roberta-base-squad2'') ]) ],
      YMap [ (''name'', YStr ''MyESRetriever''),
             (''type'', YStr ''ElasticsearchRetriever''),
             (''params'', YMap [ (''document_store'', YStr ''MyDocumentStore''),
                                 (''custom_query'', YNull) ]) ],
      YMap [ (''name'', YStr ''MyDocumentStore''),
             (''type'', YStr ''ElasticsearchDocumentStore''),
             (''params'', YMap [ (''index'', YStr ''haystack_test'') ]) ] ]"

definition my_query_pipeline :: yaml where
  "my_query_pipeline =
    YMap [ (''name'', YStr ''my_query_pipeline''),
           (''nodes'', YSeq
              [ YMap [ (''name'', YStr ''MyESRetriever''), (''inputs'', YSeq [YStr ''Query'']) ],
                YMap [ (''name'', YStr ''MyReader''), (''inputs'', YSeq [YStr ''MyESRetriever'']) ] ]) ]"

definition tutorial_yaml :: yaml where
  "tutorial_yaml =
    YMap [ (''version'', YStr ''0.7''),
           (''components'', YSeq tutorial_components),
           (''pipelines'', YSeq [my_query_pipeline]) ]"

subsection \<open>Reading a descriptor\<close>

definition section_items :: "string \<Rightarrow> yaml \<Rightarrow> yaml list" where
  "section_items k d = (case yaml_get d k of Some v \<Rightarrow> yaml_items v | None \<Rightarrow> [])"

definition components :: "yaml \<Rightarrow> yaml list" where
  "components d = section_items ''components'' d"

definition pipelines :: "yaml \<Rightarrow> yaml list" where
  "pipelines d = section_items ''pipelines'' d"

definition nodes :: "yaml \<Rightarrow> yaml list" where
  "nodes p = section_items ''nodes'' p"

definition entry_name :: "yaml \<Rightarrow> string option" where
  "entry_name e = (case yaml_get e ''name'' of Some v \<Rightarrow> yaml_str v | None \<Rightarrow> None)"

definition node_inputs :: "yaml \<Rightarrow> string list" where
  "node_inputs n = List.map_filter yaml_str (section_items ''inputs'' n)"

definition params :: "yaml \<Rightarrow> (string \<times> yaml) list" where
  "params c = (case yaml_get c ''params'' of Some (YMap kvs) \<Rightarrow> kvs | _ \<Rightarrow> [])"

definition component_names :: "yaml \<Rightarrow> string list" where
  "component_names d = List.map_filter entry_name (components d)"

definition node_occurrences :: "yaml \<Rightarrow> yaml list" where
  "node_occurrences d = concat (map nodes (pipelines d))"

text \<open>An entry carries exactly the fields \<open>ks\<close>: it is a mapping, no key is repeated, and
  its keys are those of \<open>ks\<close>.\<close>

definition has_fields :: "string list \<Rightarrow> yaml \<Rightarrow> bool" where
  "has_fields ks e = (is_mapping e \<and> distinct (yaml_keys e) \<and> set (yaml_keys e) = set ks)"

definition has_key :: "string \<Rightarrow> yaml \<Rightarrow> bool" where
  "has_key k e = (is_mapping e \<and> k \<in> set (yaml_keys e))"

text \<open>The field \<open>k\<close> of an entry is present and holds a sequence.\<close>

definition has_list_field :: "string \<Rightarrow> yaml \<Rightarrow> bool" where
  "has_list_field k e = (case yaml_get e k of Some v \<Rightarrow> is_sequence v | None \<Rightarrow> False)"

definition is_node_entry :: "yaml \<Rightarrow> bool" where
  "is_node_entry n = (has_fields [''name'', ''inputs''] n \<and> has_list_field ''inputs'' n)"

subsection \<open>Inputs, edges and references\<close>

text \<open>An input is a node name, optionally followed by \<^verbatim>\<open>.\<close> and the name of an outgoing edge
  (\<^verbatim>\<open>QueryClassifier.output_2\<close>).\<close>

definition input_source :: "string \<Rightarrow> string" where
  "input_source i = takeWhile (\<lambda>c. c \<noteq> CHR ''.'') i"

definition input_edge :: "string \<Rightarrow> string option" where
  "input_edge i = (case dropWhile (\<lambda>c. c \<noteq> CHR ''.'') i of [] \<Rightarrow> None | c # e \<Rightarrow> Some e)"

definition qualified_inputs :: "string list \<Rightarrow> string list" where
  "qualified_inputs xs = filter (\<lambda>i. input_edge i \<noteq> None) xs"

definition sentinels :: "string list" where
  "sentinels = [''Query'', ''File'']"

definition pipeline_node_names :: "yaml \<Rightarrow> string list" where
  "pipeline_node_names p = List.map_filter entry_name (nodes p)"

definition node_edges :: "yaml \<Rightarrow> (string \<times> string) list" where
  "node_edges n =
     (case entry_name n of
        None \<Rightarrow> []
      | Some m \<Rightarrow> map (\<lambda>i. (input_source i, m)) (node_inputs n))"

definition pipeline_edges :: "yaml \<Rightarrow> (string \<times> string) list" where
  "pipeline_edges p = concat (map node_edges (nodes p))"

definition resolves :: "yaml \<Rightarrow> yaml \<Rightarrow> string \<Rightarrow> bool" where
  "resolves d p i =
     (input_source i \<in> set (component_names d) \<union> set (pipeline_node_names p) \<union> set sentinels)"

definition descriptor_inputs :: "yaml \<Rightarrow> string list" where
  "descriptor_inputs d = concat (map node_inputs (node_occurrences d))"

text \<open>A \<open>params\<close> value references a component when it is a string that is the name of a
  component of the descriptor; \<open>param_refs\<close> lists them as (component, key, referenced name),
  \<open>other_params\<close> lists the remaining (key, value) pairs.\<close>

definition is_component_ref :: "yaml \<Rightarrow> yaml \<Rightarrow> bool" where
  "is_component_ref d v = (case yaml_str v of Some s \<Rightarrow> s \<in> set (component_names d) | None \<Rightarrow> False)"

definition component_refs :: "yaml \<Rightarrow> yaml \<Rightarrow> (string \<times> string \<times> string) list" where
  "component_refs d c =
     (case entry_name c of
        None \<Rightarrow> []
      | Some n \<Rightarrow>
          List.map_filter
            (\<lambda>(k, v). if is_component_ref d v then map_option (\<lambda>s. (n, k, s)) (yaml_str v) else None)
            (params c))"

definition param_refs :: "yaml \<Rightarrow> (string \<times> string \<times> string) list" where
  "param_refs d = concat (map (component_refs d) (components d))"

definition other_params :: "yaml \<Rightarrow> (string \<times> yaml) list" where
  "other_params d =
     concat (map (\<lambda>c. filter (\<lambda>(k, v). \<not> is_component_ref d v) (params c)) (components d))"

section \<open>The custom nodes of the Pipelines tutorial\<close>

text \<open>
  The tutorial defines two node classes.
  \<^verbatim>\<open>
  class NodeTemplate():
      outgoing_edges = 1

      def run(self, **kwargs):
          # Insert code here to manipulate the variables in kwarg
          return (kwargs, "output_1")

  class QueryClassifier():
      outgoing_edges = 2

      def run(self, **kwargs):
          if "?" in kwargs["query"]:
              return (kwargs, "output_2")
          else:
              return (kwargs, "output_1")
  \<close>
  \<^verbatim>\<open>kwargs\<close> is a dictionary from keyword names to Python values. A missing key raises
  \<^verbatim>\<open>KeyError\<close>; \<^verbatim>\<open>"?" in v\<close> is the substring test on a string, membership in a list,
  key membership in a dictionary, and raises \<^verbatim>\<open>TypeError\<close> on a value that is no
  container.
\<close>

datatype pyval =
    PNone
  | PBool bool
  | PInt int
  | PStr string
  | PList "pyval list"
  | PDict "(pyval \<times> pyval) list"

datatype error = KeyError string | TypeError

type_synonym kwargs = "string \<rightharpoonup> pyval"

datatype node_class = NodeTemplate | QueryClassifier

fun outgoing_edges :: "node_class \<Rightarrow> int" where
  "outgoing_edges NodeTemplate = 1"
| "outgoing_edges QueryClassifier = 2"

definition getitem :: "kwargs \<Rightarrow> string \<Rightarrow> error + pyval" where
  "getitem d k = (case d k of None \<Rightarrow> Inl (KeyError k) | Some v \<Rightarrow> Inr v)"

fun contains :: "string \<Rightarrow> pyval \<Rightarrow> error + bool" where
  "contains s (PStr t) = Inr (sublist s t)"
| "contains s (PList xs) = Inr (PStr s \<in> set xs)"
| "contains s (PDict kvs) = Inr (PStr s \<in> fst ` set kvs)"
| "contains s v = Inl TypeError"

definition NodeTemplate_run :: "kwargs \<Rightarrow> error + (kwargs \<times> string)" where
  "NodeTemplate_run kwargs = Inr (kwargs, ''output_1'')"

definition QueryClassifier_run :: "kwargs \<Rightarrow> error + (kwargs \<times> string)" where
  "QueryClassifier_run kwargs =
     (case getitem kwargs ''query'' of
        Inl e \<Rightarrow> Inl e
      | Inr q \<Rightarrow>
          (case contains ''?'' q of
             Inl e \<Rightarrow> Inl e
           | Inr b \<Rightarrow> if b then Inr (kwargs, ''output_2'') else Inr (kwargs, ''output_1'')))"

subsection \<open>Outgoing edges\<close>

definition digit :: "nat \<Rightarrow> char" where
  "digit d = ''0123456789'' ! d"

fun str_nat :: "nat \<Rightarrow> string" where
  "str_nat n = (if n < 10 then [digit n] else str_nat (n div 10) @ [digit (n mod 10)])"

definition str_int :: "int \<Rightarrow> string" where
  "str_int i = (if i < 0 then CHR ''-'' # str_nat (nat (- i)) else str_nat (nat i))"

definition digit_value :: "char \<Rightarrow> nat option" where
  "digit_value c =
     map_of [ (CHR ''0'', 0), (CHR ''1'', 1), (CHR ''2'', 2), (CHR ''3'', 3), (CHR ''4'', 4),
              (CHR ''5'', 5), (CHR ''6'', 6), (CHR ''7'', 7), (CHR ''8'', 8), (CHR ''9'', 9) ] c"

fun parse_digits :: "nat \<Rightarrow> string \<Rightarrow> nat option" where
  "parse_digits acc [] = Some acc"
| "parse_digits acc (c # cs) =
     (case digit_value c of None \<Rightarrow> None | Some d \<Rightarrow> parse_digits (10 * acc + d) cs)"

definition parse_nat :: "string \<Rightarrow> nat option" where
  "parse_nat s = (if s = [] then None else parse_digits 0 s)"

text \<open>Modelled from the spec: the \<^verbatim>\<open>Pipeline\<close> class of the framework, which names and
  checks the edges, is not in the repository. Following the tutorial's text ("the name of
  the outgoing edge (by default "output_1" for nodes that have one output)", and
  \<^verbatim>\<open>outgoing_edges\<close> "defines the number of output options from your node"), a node
  with \<open>n\<close> outgoing edges has the edges \<^verbatim>\<open>output_1\<close> ... \<^verbatim>\<open>output_n\<close>, and
  \<open>edge_number\<close> reads the \<open>k\<close> of \<^verbatim>\<open>output_k\<close>.\<close>

definition edge_names :: "int \<Rightarrow> string list" where
  "edge_names n = map (\<lambda>k. ''output_'' @ str_int k) [1..n]"

definition edge_number :: "string \<Rightarrow> int option" where
  "edge_number e =
     (if take 7 e = ''output_'' then map_option int (parse_nat (drop 7 e)) else None)"

subsection \<open>The pipelines the tutorial builds in code\<close>

text \<open>Modelled from the spec: \<^verbatim>\<open>Pipeline()\<close> and \<^verbatim>\<open>add_node\<close> belong to the framework and are
  not in the repository. A pipeline is kept as the list of the tutorial's \<^verbatim>\<open>add_node\<close>
  calls, in call order: the node's name, its component and its inputs. A component is an
  instance of one of the two classes above, or an object of the framework, named by the
  expression the tutorial passes.\<close>

datatype component = Instance node_class | External string

type_synonym pipeline = "(string \<times> component \<times> string list) list"

definition Pipeline :: pipeline where
  "Pipeline = []"

definition add_node :: "component \<Rightarrow> string \<Rightarrow> string list \<Rightarrow> pipeline \<Rightarrow> pipeline" where
  "add_node c n xs p = p @ [(n, c, xs)]"

definition p_extractive :: pipeline where
  "p_extractive =
     add_node (External ''reader'') ''Reader'' [''Retriever'']
       (add_node (External ''es_retriever'') ''Retriever'' [''Query''] Pipeline)"

definition p_ensemble :: pipeline where
  "p_ensemble =
     add_node (External ''reader'') ''Reader'' [''JoinResults'']
       (add_node (External ''JoinDocuments'') ''JoinResults''
            [''ESRetriever'', ''DPRRetriever'']
         (add_node (External ''dpr_retriever'') ''DPRRetriever'' [''Query'']
           (add_node (External ''es_retriever'') ''ESRetriever'' [''Query''] Pipeline)))"

definition p_classifier :: pipeline where
  "p_classifier =
     add_node (External ''reader'') ''QAReader'' [''ESRetriever'', ''DPRRetriever'']
       (add_node (External ''dpr_retriever'') ''DPRRetriever'' [''QueryClassifier.output_2'']
         (add_node (External ''es_retriever'') ''ESRetriever'' [''QueryClassifier.output_1'']
           (add_node (Instance QueryClassifier) ''QueryClassifier'' [''Query''] Pipeline)))"

definition pipeline_inputs :: "pipeline \<Rightarrow> string list" where
  "pipeline_inputs p = concat (map (\<lambda>(n, c, xs). xs) p)"

definition node_component :: "pipeline \<Rightarrow> string \<Rightarrow> component option" where
  "node_component p n = map_of (map (\<lambda>(n, c, xs). (n, c)) p) n"

text \<open>An edge-qualified input \<^verbatim>\<open>N.output_k\<close> is in range when \<open>N\<close> is a node of the pipeline
  whose class declares more than one outgoing edge and \<open>1 \<le> k \<le> outgoing_edges\<close>.\<close>

definition edge_in_range :: "pipeline \<Rightarrow> string \<Rightarrow> bool" where
  "edge_in_range p i =
     (case node_component p (input_source i) of
        Some (Instance c) \<Rightarrow>
          (case Option.bind (input_edge i) edge_number of
             Some k \<Rightarrow> 1 < outgoing_edges c \<and> 1 \<le> k \<and> k \<le> outgoing_edges c
           | None \<Rightarrow> False)
      | _ \<Rightarrow> False)"

section \<open>Evaluating the two descriptors\<close>

lemma sample_components_eval: "components test_pipeline_yaml = sample_components"
  by (simp add: components_def section_items_def test_pipeline_yaml_def)

lemma sample_pipelines_eval:
  "pipelines test_pipeline_yaml = [sample_query_pipeline, sample_indexing_pipeline]"
  by (simp add: pipelines_def section_items_def test_pipeline_yaml_def)

lemma tutorial_components_eval: "components tutorial_yaml = tutorial_components"
  by (simp add: components_def section_items_def tutorial_yaml_def)

lemma tutorial_pipelines_eval: "pipelines tutorial_yaml = [my_query_pipeline]"
  by (simp add: pipelines_def section_items_def tutorial_yaml_def)

text \<open>
  C3. Every entry of \<open>components\<close>, in the sample config (five entries) and in the
  tutorial's example (three entries), carries exactly the three fields \<open>name\<close>, \<open>type\<close>
  and \<open>params\<close>.
\<close>

theorem components_are_triples:
  "length (components test_pipeline_yaml) = 5
   \<and> list_all (has_fields [''name'', ''type'', ''params'']) (components test_pipeline_yaml)
   \<and> length (components tutorial_yaml) = 3
   \<and> list_all (has_fields [''name'', ''type'', ''params'']) (components tutorial_yaml)"
  unfolding sample_components_eval tutorial_components_eval
  by (simp add: sample_components_def tutorial_components_def has_fields_def insert_commute)

section \<open>The graphs of the sample config\<close>

lemma query_pipeline_edges:
  "pipeline_edges sample_query_pipeline = [(''Query'', ''ESRetriever''), (''ESRetriever'', ''Reader'')]"
  by (simp add: pipeline_edges_def nodes_def section_items_def sample_query_pipeline_def
      node_edges_def entry_name_def node_inputs_def List.map_filter_simps input_source_def)

lemma indexing_pipeline_edges:
  "pipeline_edges sample_indexing_pipeline =
     [(''File'', ''PDFConverter''), (''PDFConverter'', ''Preprocessor''),
      (''Preprocessor'', ''ESRetriever''), (''ESRetriever'', ''DocumentStore'')]"
  by (simp add: pipeline_edges_def nodes_def section_items_def sample_indexing_pipeline_def
      node_edges_def entry_name_def node_inputs_def List.map_filter_simps input_source_def)

lemma acyclic_by_rank:
  fixes f :: "'a \<Rightarrow> nat"
  assumes "\<And>a b. (a, b) \<in> r \<Longrightarrow> f a < f b"
  shows "acyclic r"
proof -
  have "r \<subseteq> measure f"
    using assms by auto
  then have "wf r"
    by (rule wf_subset [OF wf_measure])
  then show ?thesis
    by (rule wf_acyclic)
qed

lemma query_pipeline_acyclic: "acyclic (set (pipeline_edges sample_query_pipeline))"
  unfolding query_pipeline_edges
proof (rule acyclic_by_rank)
  fix a b :: string
  assume "(a, b) \<in> set [(''Query'', ''ESRetriever''), (''ESRetriever'', ''Reader'')]"
  then have "(a, b) = (''Query'', ''ESRetriever'') \<or> (a, b) = (''ESRetriever'', ''Reader'')"
    by simp
  then show "length (takeWhile (\<lambda>x. x \<noteq> a) [''Query'', ''ESRetriever'', ''Reader''])
      < length (takeWhile (\<lambda>x. x \<noteq> b) [''Query'', ''ESRetriever'', ''Reader''])"
    by (elim disjE) simp_all
qed

lemma indexing_pipeline_acyclic: "acyclic (set (pipeline_edges sample_indexing_pipeline))"
  unfolding indexing_pipeline_edges
proof (rule acyclic_by_rank)
  fix a b :: string
  assume "(a, b) \<in> set [(''File'', ''PDFConverter''), (''PDFConverter'', ''Preprocessor''),
      (''Preprocessor'', ''ESRetriever''), (''ESRetriever'', ''DocumentStore'')]"
  then have "(a, b) = (''File'', ''PDFConverter'') \<or> (a, b) = (''PDFConverter'', ''Preprocessor'')
      \<or> (a, b) = (''Preprocessor'', ''ESRetriever'') \<or> (a, b) = (''ESRetriever'', ''DocumentStore'')"
    by simp
  then show "length (takeWhile (\<lambda>x. x \<noteq> a)
        [''File'', ''PDFConverter'', ''Preprocessor'', ''ESRetriever'', ''DocumentStore''])
      < length (takeWhile (\<lambda>x. x \<noteq> b)
        [''File'', ''PDFConverter'', ''Preprocessor'', ''ESRetriever'', ''DocumentStore''])"
    by (elim disjE) simp_all
qed


lemma sample_component_names:
  "component_names test_pipeline_yaml =
     [''Reader'', ''ESRetriever'', ''DocumentStore'', ''PDFConverter'', ''Preprocessor'']"
  by (simp add: component_names_def sample_components_eval sample_components_def
      entry_name_def List.map_filter_simps)

lemma tutorial_component_names:
  "component_names tutorial_yaml = [''MyReader'', ''MyESRetriever'', ''MyDocumentStore'']"
  by (simp add: component_names_def tutorial_components_eval tutorial_components_def
      entry_name_def List.map_filter_simps)

lemma query_pipeline_nodes:
  "nodes sample_query_pipeline =
     [ YMap [(''name'', YStr ''ESRetriever''), (''inputs'', YSeq [YStr ''Query''])],
       YMap [(''name'', YStr ''Reader''), (''inputs'', YSeq [YStr ''ESRetriever''])] ]"
  by (simp add: nodes_def section_items_def sample_query_pipeline_def)

lemma indexing_pipeline_nodes:
  "nodes sample_indexing_pipeline =
     [ YMap [(''name'', YStr ''PDFConverter''), (''inputs'', YSeq [YStr ''File''])],
       YMap [(''name'', YStr ''Preprocessor''), (''inputs'', YSeq [YStr ''PDFConverter''])],
       YMap [(''name'', YStr ''ESRetriever''), (''inputs'', YSeq [YStr ''Preprocessor''])],
       YMap [(''name'', YStr ''DocumentStore''), (''inputs'', YSeq [YStr ''ESRetriever''])] ]"
  by (simp add: nodes_def section_items_def sample_indexing_pipeline_def)

lemma my_query_pipeline_nodes:
  "nodes my_query_pipeline =
     [ YMap [(''name'', YStr ''MyESRetriever''), (''inputs'', YSeq [YStr ''Query''])],
       YMap [(''name'', YStr ''MyReader''), (''inputs'', YSeq [YStr ''MyESRetriever''])] ]"
  by (simp add: nodes_def section_items_def my_query_pipeline_def)

lemma node_inputs_eval:
  "node_inputs (YMap [(''name'', n), (''inputs'', YSeq [YStr i])]) = [i]"
  by (simp add: node_inputs_def section_items_def List.map_filter_simps)

lemma resolves_sentinel:
  "resolves d p ''Query''" "resolves d p ''File''"
  by (simp_all add: resolves_def input_source_def sentinels_def)

lemma resolves_sample_component:
  "resolves test_pipeline_yaml p ''ESRetriever''"
  "resolves test_pipeline_yaml p ''PDFConverter''"
  "resolves test_pipeline_yaml p ''Preprocessor''"
  by (simp_all add: resolves_def input_source_def sample_component_names)

lemma query_pipeline_resolved:
  "\<forall>n \<in> set (nodes sample_query_pipeline). \<forall>i \<in> set (node_inputs n).
     resolves test_pipeline_yaml sample_query_pipeline i"
  by (simp add: query_pipeline_nodes node_inputs_eval resolves_sentinel resolves_sample_component)

lemma indexing_pipeline_resolved:
  "\<forall>n \<in> set (nodes sample_indexing_pipeline). \<forall>i \<in> set (node_inputs n).
     resolves test_pipeline_yaml sample_indexing_pipeline i"
  by (simp add: indexing_pipeline_nodes node_inputs_eval resolves_sentinel resolves_sample_component)

lemma sample_pipeline_names:
  "map entry_name (pipelines test_pipeline_yaml)
     = [Some ''query_pipeline'', Some ''indexing_pipeline'']"
  by (simp add: sample_pipelines_eval entry_name_def sample_query_pipeline_def
      sample_indexing_pipeline_def)

text \<open>
  C1. The sample config declares the two pipelines \<open>query_pipeline\<close> and
  \<open>indexing_pipeline\<close>. For each of them the graph with an edge from every name in a node's
  \<open>inputs\<close> to that node is acyclic, and every name in an \<open>inputs\<close> list is the name of a
  declared component or node, or one of the sentinels \<open>Query\<close> and \<open>File\<close>.
\<close>

theorem sample_pipelines_acyclic_resolved:
  "map entry_name (pipelines test_pipeline_yaml) = [Some ''query_pipeline'', Some ''indexing_pipeline'']
   \<and> (\<forall>p \<in> set (pipelines test_pipeline_yaml).
        acyclic (set (pipeline_edges p))
        \<and> (\<forall>n \<in> set (nodes p). \<forall>i \<in> set (node_inputs n). resolves test_pipeline_yaml p i))"
proof (intro conjI ballI)
  show "map entry_name (pipelines test_pipeline_yaml)
      = [Some ''query_pipeline'', Some ''indexing_pipeline'']"
    by (rule sample_pipeline_names)
next
  fix p assume "p \<in> set (pipelines test_pipeline_yaml)"
  then have p: "p = sample_query_pipeline \<or> p = sample_indexing_pipeline"
    unfolding sample_pipelines_eval by simp
  from p show "acyclic (set (pipeline_edges p))"
    using query_pipeline_acyclic indexing_pipeline_acyclic by (elim disjE) simp_all
  fix n i assume "n \<in> set (nodes p)" "i \<in> set (node_inputs n)"
  with p show "resolves test_pipeline_yaml p i"
    using query_pipeline_resolved indexing_pipeline_resolved by (elim disjE) blast+
qed

theorem sample_pipelines_acyclic_resolved_witness:
  "sample_indexing_pipeline \<in> set (pipelines test_pipeline_yaml)
   \<and> acyclic (set (pipeline_edges sample_indexing_pipeline))
   \<and> YMap [(''name'', YStr ''DocumentStore''), (''inputs'', YSeq [YStr ''ESRetriever''])]
        \<in> set (nodes sample_indexing_pipeline)
   \<and> ''ESRetriever'' \<in> set (node_inputs
         (YMap [(''name'', YStr ''DocumentStore''), (''inputs'', YSeq [YStr ''ESRetriever''])]))
   \<and> resolves test_pipeline_yaml sample_indexing_pipeline ''ESRetriever''"
proof -
  have p: "sample_indexing_pipeline \<in> set (pipelines test_pipeline_yaml)"
    by (simp add: sample_pipelines_eval)
  have n: "YMap [(''name'', YStr ''DocumentStore''), (''inputs'', YSeq [YStr ''ESRetriever''])]
        \<in> set (nodes sample_indexing_pipeline)"
    by (simp add: indexing_pipeline_nodes)
  have i: "''ESRetriever'' \<in> set (node_inputs
      (YMap [(''name'', YStr ''DocumentStore''), (''inputs'', YSeq [YStr ''ESRetriever''])]))"
    by (simp add: node_inputs_eval)
  have all: "\<forall>p \<in> set (pipelines test_pipeline_yaml).
        acyclic (set (pipeline_edges p))
        \<and> (\<forall>n \<in> set (nodes p). \<forall>i \<in> set (node_inputs n). resolves test_pipeline_yaml p i)"
    using sample_pipelines_acyclic_resolved by (rule conjunct2)
  from all p have here: "acyclic (set (pipeline_edges sample_indexing_pipeline))
        \<and> (\<forall>n \<in> set (nodes sample_indexing_pipeline). \<forall>i \<in> set (node_inputs n).
              resolves test_pipeline_yaml sample_indexing_pipeline i)"
    by (rule bspec)
  from here n i have "resolves test_pipeline_yaml sample_indexing_pipeline ''ESRetriever''"
    by blast
  with here p n i show ?thesis
    by (intro conjI) (rule p, rule conjunct1 [OF here], rule n, rule i, assumption)
qed

section \<open>The shape of the descriptors\<close>

lemma sample_node_occurrences:
  "node_occurrences test_pipeline_yaml
     = nodes sample_query_pipeline @ nodes sample_indexing_pipeline"
  by (simp add: node_occurrences_def sample_pipelines_eval)

lemma tutorial_node_occurrences:
  "node_occurrences tutorial_yaml = nodes my_query_pipeline"
  by (simp add: node_occurrences_def tutorial_pipelines_eval)

lemma is_node_entry_eval:
  "is_node_entry (YMap [(''name'', n), (''inputs'', YSeq xs)])"
  by (simp add: is_node_entry_def has_fields_def has_list_field_def)

text \<open>
  C2, as the claim states it, fails: the single entry of \<open>pipelines\<close> in the tutorial's
  example, \<open>my_query_pipeline\<close>, has no key \<open>type\<close>.
\<close>

theorem tutorial_pipeline_has_no_type:
  "my_query_pipeline \<in> set (pipelines tutorial_yaml)
   \<and> is_mapping my_query_pipeline
   \<and> \<not> has_key ''type'' my_query_pipeline"
  by (simp add: tutorial_pipelines_eval has_key_def my_query_pipeline_def)

text \<open>
  C2, amended. Every entry of \<open>pipelines\<close> is a mapping with the keys \<open>name\<close> and \<open>nodes\<close>,
  where \<open>nodes\<close> is a list: the two entries of the sample config carry exactly \<open>name\<close>,
  \<open>type\<close> and \<open>nodes\<close>, the entry of the tutorial's example exactly \<open>name\<close> and \<open>nodes\<close>.
  Every element of every \<open>nodes\<close> list is a mapping with exactly the keys \<open>name\<close> and
  \<open>inputs\<close>, and \<open>inputs\<close> is a list.
\<close>

theorem pipeline_entries_shape:
  "length (pipelines test_pipeline_yaml) = 2
   \<and> list_all (has_fields [''name'', ''type'', ''nodes'']) (pipelines test_pipeline_yaml)
   \<and> list_all (has_list_field ''nodes'') (pipelines test_pipeline_yaml)
   \<and> length (pipelines tutorial_yaml) = 1
   \<and> list_all (has_fields [''name'', ''nodes'']) (pipelines tutorial_yaml)
   \<and> list_all (has_list_field ''nodes'') (pipelines tutorial_yaml)
   \<and> length (node_occurrences test_pipeline_yaml) = 6
   \<and> list_all is_node_entry (node_occurrences test_pipeline_yaml)
   \<and> length (node_occurrences tutorial_yaml) = 2
   \<and> list_all is_node_entry (node_occurrences tutorial_yaml)"
proof -
  have sample: "list_all (has_fields [''name'', ''type'', ''nodes'']) (pipelines test_pipeline_yaml)
      \<and> list_all (has_list_field ''nodes'') (pipelines test_pipeline_yaml)"
    by (simp add: sample_pipelines_eval has_fields_def has_list_field_def
        sample_query_pipeline_def sample_indexing_pipeline_def insert_commute)
  have tutorial: "list_all (has_fields [''name'', ''nodes'']) (pipelines tutorial_yaml)
      \<and> list_all (has_list_field ''nodes'') (pipelines tutorial_yaml)"
    by (simp add: tutorial_pipelines_eval has_fields_def has_list_field_def
        my_query_pipeline_def insert_commute)
  have sample_nodes: "length (node_occurrences test_pipeline_yaml) = 6
      \<and> list_all is_node_entry (node_occurrences test_pipeline_yaml)"
    by (simp add: sample_node_occurrences query_pipeline_nodes indexing_pipeline_nodes
        is_node_entry_eval)
  have tutorial_nodes: "length (node_occurrences tutorial_yaml) = 2
      \<and> list_all is_node_entry (node_occurrences tutorial_yaml)"
    by (simp add: tutorial_node_occurrences my_query_pipeline_nodes is_node_entry_eval)
  from sample tutorial sample_nodes tutorial_nodes show ?thesis
    by (simp add: sample_pipelines_eval tutorial_pipelines_eval)
qed

text \<open>
  C6, as the claim states it, fails: \<open>version\<close> is a top-level key of the sample config, and
  it is neither \<open>components\<close> nor \<open>pipelines\<close>.
\<close>

theorem version_is_top_level_key:
  "''version'' \<in> set (yaml_keys test_pipeline_yaml)
   \<and> ''version'' \<notin> set [''components'', ''pipelines'']"
  by (simp add: test_pipeline_yaml_def)

text \<open>
  C6, amended. The sample config is a mapping whose top-level keys are \<open>version\<close>,
  \<open>components\<close> and \<open>pipelines\<close>, in this order: the two sections \<open>components\<close> and
  \<open>pipelines\<close>, both lists, after a \<open>version\<close> string.
\<close>

theorem sample_top_level_keys:
  "is_mapping test_pipeline_yaml
   \<and> yaml_keys test_pipeline_yaml = [''version'', ''components'', ''pipelines'']
   \<and> yaml_get test_pipeline_yaml ''version'' = Some (YStr ''0.7'')
   \<and> has_list_field ''components'' test_pipeline_yaml
   \<and> has_list_field ''pipelines'' test_pipeline_yaml"
  by (simp add: test_pipeline_yaml_def has_list_field_def)

text \<open>
  C10. Each of the six node occurrences under \<open>pipelines\<close> in the sample config is named
  after one of the five components declared in its \<open>components\<close> section.
\<close>

theorem node_names_are_components:
  "component_names test_pipeline_yaml
     = [''Reader'', ''ESRetriever'', ''DocumentStore'', ''PDFConverter'', ''Preprocessor'']
   \<and> map entry_name (node_occurrences test_pipeline_yaml)
     = [Some ''ESRetriever'', Some ''Reader'', Some ''PDFConverter'', Some ''Preprocessor'',
        Some ''ESRetriever'', Some ''DocumentStore'']
   \<and> list_all (\<lambda>n. case entry_name n of
                      Some m \<Rightarrow> m \<in> set (component_names test_pipeline_yaml)
                    | None \<Rightarrow> False)
        (node_occurrences test_pipeline_yaml)"
  by (simp add: sample_component_names sample_node_occurrences query_pipeline_nodes
      indexing_pipeline_nodes entry_name_def)

section \<open>References between components\<close>

lemma sample_param_refs:
  "param_refs test_pipeline_yaml = [(''ESRetriever'', ''document_store'', ''DocumentStore'')]"
  by (simp add: param_refs_def component_refs_def is_component_ref_def sample_component_names
      sample_components_eval sample_components_def entry_name_def params_def
      List.map_filter_simps)

lemma tutorial_param_refs:
  "param_refs tutorial_yaml = [(''MyESRetriever'', ''document_store'', ''MyDocumentStore'')]"
  by (simp add: param_refs_def component_refs_def is_component_ref_def tutorial_component_names
      tutorial_components_eval tutorial_components_def entry_name_def params_def
      List.map_filter_simps)

lemma sample_other_params:
  "other_params test_pipeline_yaml =
     [ (''no_ans_boost'', YInt (- 10)),
       (''model_name_or_path'', YStr ''deepset/roberta-base-squad2''),
       (''custom_query'', YNull),
       (''index'', YStr ''haystack_test''),
       (''label_index'', YStr ''haystack_test_label''),
       (''remove_numeric_tables'', YBool False),
       (''clean_whitespace'', YBool True) ]"
  by (simp add: other_params_def is_component_ref_def sample_component_names
      sample_components_eval sample_components_def params_def)

lemma tutorial_other_params:
  "other_params tutorial_yaml =
     [ (''no_ans_boost'', YInt (- 10)),
       (''model_name_or_path'', YStr ''deepset/roberta-base-squad2''),
       (''custom_query'', YNull),
       (''index'', YStr ''haystack_test'') ]"
  by (simp add: other_params_def is_component_ref_def tutorial_component_names
      tutorial_components_eval tutorial_components_def params_def)

text \<open>
  C4. In the sample config the only \<open>params\<close> value that references a component is
  \<open>document_store: DocumentStore\<close> of \<open>ESRetriever\<close>, in the tutorial's example
  \<open>document_store: MyDocumentStore\<close> of \<open>MyESRetriever\<close>; each names another component
  declared in the same descriptor, and every remaining \<open>params\<close> value is a literal
  (a scalar, neither a list nor a mapping).
\<close>

theorem param_references_resolve:
  "param_refs test_pipeline_yaml = [(''ESRetriever'', ''document_store'', ''DocumentStore'')]
   \<and> param_refs tutorial_yaml = [(''MyESRetriever'', ''document_store'', ''MyDocumentStore'')]
   \<and> list_all (\<lambda>(c, k, s). s \<in> set (component_names test_pipeline_yaml) \<and> s \<noteq> c)
        (param_refs test_pipeline_yaml)
   \<and> list_all (\<lambda>(c, k, s). s \<in> set (component_names tutorial_yaml) \<and> s \<noteq> c)
        (param_refs tutorial_yaml)
   \<and> map fst (other_params test_pipeline_yaml)
        = [''no_ans_boost'', ''model_name_or_path'', ''custom_query'', ''index'', ''label_index'',
           ''remove_numeric_tables'', ''clean_whitespace'']
   \<and> list_all (\<lambda>(k, v). is_literal v) (other_params test_pipeline_yaml)
   \<and> map fst (other_params tutorial_yaml)
        = [''no_ans_boost'', ''model_name_or_path'', ''custom_query'', ''index'']
   \<and> list_all (\<lambda>(k, v). is_literal v) (other_params tutorial_yaml)"
  by (simp add: sample_param_refs tutorial_param_refs sample_other_params tutorial_other_params
      sample_component_names tutorial_component_names)

section \<open>Edge-qualified inputs\<close>

lemma edge_names_1: "edge_names 1 = [''output_1'']"
  by (simp add: edge_names_def upto.simps str_int_def digit_def)

lemma edge_names_2: "edge_names 2 = [''output_1'', ''output_2'']"
  by (simp add: edge_names_def upto.simps str_int_def digit_def)

lemma edge_number_eval:
  "edge_number ''output_1'' = Some 1" "edge_number ''output_2'' = Some 2"
  by (simp_all add: edge_number_def parse_nat_def digit_value_def)

lemma p_classifier_eval:
  "p_classifier =
     [ (''QueryClassifier'', Instance QueryClassifier, [''Query'']),
       (''ESRetriever'', External ''es_retriever'', [''QueryClassifier.output_1'']),
       (''DPRRetriever'', External ''dpr_retriever'', [''QueryClassifier.output_2'']),
       (''QAReader'', External ''reader'', [''ESRetriever'', ''DPRRetriever'']) ]"
  by (simp add: p_classifier_def add_node_def Pipeline_def)

lemma input_edge_eval:
  "input_edge ''Query'' = None" "input_edge ''File'' = None"
  "input_edge ''Retriever'' = None" "input_edge ''JoinResults'' = None"
  "input_edge ''ESRetriever'' = None" "input_edge ''DPRRetriever'' = None"
  "input_edge ''MyESRetriever'' = None"
  "input_edge ''PDFConverter'' = None" "input_edge ''Preprocessor'' = None"
  "input_edge ''QueryClassifier.output_1'' = Some ''output_1''"
  "input_edge ''QueryClassifier.output_2'' = Some ''output_2''"
  by (simp_all add: input_edge_def)

lemma input_source_eval:
  "input_source ''QueryClassifier.output_1'' = ''QueryClassifier''"
  "input_source ''QueryClassifier.output_2'' = ''QueryClassifier''"
  by (simp_all add: input_source_def)

lemma p_classifier_qualified:
  "qualified_inputs (pipeline_inputs p_classifier)
     = [''QueryClassifier.output_1'', ''QueryClassifier.output_2'']"
  by (simp add: p_classifier_eval pipeline_inputs_def qualified_inputs_def input_edge_eval)

lemma sample_descriptor_inputs:
  "descriptor_inputs test_pipeline_yaml
     = [''Query'', ''ESRetriever'', ''File'', ''PDFConverter'', ''Preprocessor'', ''ESRetriever'']"
  by (simp add: descriptor_inputs_def sample_node_occurrences query_pipeline_nodes
      indexing_pipeline_nodes node_inputs_eval)

lemma tutorial_descriptor_inputs:
  "descriptor_inputs tutorial_yaml = [''Query'', ''MyESRetriever'']"
  by (simp add: descriptor_inputs_def tutorial_node_occurrences my_query_pipeline_nodes
      node_inputs_eval)

text \<open>
  C5. The edge-qualified inputs of the decision-node pipeline \<open>p_classifier\<close> are
  \<open>QueryClassifier.output_1\<close> and \<open>QueryClassifier.output_2\<close>. Both name the node
  \<open>QueryClassifier\<close>, whose class declares \<open>outgoing_edges = 2\<close>: more than one edge, and the
  edge numbers 1 and 2 do not exceed it. No input of the sample config, of the tutorial's
  YAML example or of the tutorial's other two pipelines is edge-qualified.
\<close>

theorem qualified_inputs_in_range:
  "qualified_inputs (pipeline_inputs p_classifier)
     = [''QueryClassifier.output_1'', ''QueryClassifier.output_2'']
   \<and> list_all (edge_in_range p_classifier) (qualified_inputs (pipeline_inputs p_classifier))
   \<and> map (\<lambda>i. (input_source i, Option.bind (input_edge i) edge_number))
        (qualified_inputs (pipeline_inputs p_classifier))
     = [(''QueryClassifier'', Some 1), (''QueryClassifier'', Some 2)]
   \<and> node_component p_classifier ''QueryClassifier'' = Some (Instance QueryClassifier)
   \<and> outgoing_edges QueryClassifier = 2
   \<and> qualified_inputs (descriptor_inputs test_pipeline_yaml) = []
   \<and> qualified_inputs (descriptor_inputs tutorial_yaml) = []
   \<and> qualified_inputs (pipeline_inputs p_extractive) = []
   \<and> qualified_inputs (pipeline_inputs p_ensemble) = []"
proof -
  have comp: "node_component p_classifier ''QueryClassifier'' = Some (Instance QueryClassifier)"
    by (simp add: p_classifier_eval node_component_def)
  have range: "edge_in_range p_classifier ''QueryClassifier.output_1''"
      "edge_in_range p_classifier ''QueryClassifier.output_2''"
    by (simp_all add: edge_in_range_def input_source_eval input_edge_eval edge_number_eval comp)
  have yaml: "qualified_inputs (descriptor_inputs test_pipeline_yaml) = []"
      "qualified_inputs (descriptor_inputs tutorial_yaml) = []"
    by (simp_all add: sample_descriptor_inputs tutorial_descriptor_inputs qualified_inputs_def
        input_edge_eval)
  have code: "qualified_inputs (pipeline_inputs p_extractive) = []"
      "qualified_inputs (pipeline_inputs p_ensemble) = []"
    by (simp_all add: p_extractive_def p_ensemble_def add_node_def Pipeline_def
        pipeline_inputs_def qualified_inputs_def input_edge_eval)
  from comp range yaml code show ?thesis
    by (simp add: p_classifier_qualified input_source_eval input_edge_eval edge_number_eval)
qed

section \<open>Running the custom nodes\<close>

lemma sublist_single: "sublist [c] s \<longleftrightarrow> c \<in> set s"
  by (induction s) (auto simp: sublist_Cons_right)

lemma getitem_present: "kwargs k = Some v \<Longrightarrow> getitem kwargs k = Inr v"
  by (simp add: getitem_def)

lemma getitem_absent: "kwargs k = None \<Longrightarrow> getitem kwargs k = Inl (KeyError k)"
  by (simp add: getitem_def)

text \<open>What \<^verbatim>\<open>QueryClassifier.run\<close> does on a query that is no string: a list is searched for
  the element \<^verbatim>\<open>"?"\<close>, and a number is no container.\<close>

lemma QueryClassifier_run_on_list:
  "kwargs ''query'' = Some (PList xs) \<Longrightarrow>
     QueryClassifier_run kwargs
       = Inr (kwargs, if PStr ''?'' \<in> set xs then ''output_2'' else ''output_1'')"
  by (simp add: QueryClassifier_run_def getitem_present)

lemma QueryClassifier_run_on_int:
  "kwargs ''query'' = Some (PInt n) \<Longrightarrow> QueryClassifier_run kwargs = Inl TypeError"
  by (simp add: QueryClassifier_run_def getitem_present)

text \<open>
  C7, as the claim states it, fails: it speaks of every \<^verbatim>\<open>kwargs\<close> that contains the key
  \<^verbatim>\<open>query\<close>, and \<^verbatim>\<open>run(query=5)\<close> has the key but returns no pair at all. The test
  \<^verbatim>\<open>"?" in 5\<close> raises \<^verbatim>\<open>TypeError\<close>, which leaves \<^verbatim>\<open>run\<close>.
\<close>

theorem QueryClassifier_run_non_string_query:
  "[''query'' \<mapsto> PInt 5] ''query'' = Some (PInt 5)
   \<and> QueryClassifier_run [''query'' \<mapsto> PInt 5] = Inl TypeError
   \<and> QueryClassifier_run [''query'' \<mapsto> PInt 5] \<noteq> Inr ([''query'' \<mapsto> PInt 5], ''output_2'')
   \<and> QueryClassifier_run [''query'' \<mapsto> PInt 5] \<noteq> Inr ([''query'' \<mapsto> PInt 5], ''output_1'')"
proof -
  have present: "[''query'' \<mapsto> PInt 5] ''query'' = Some (PInt 5)"
    by simp
  have raised: "QueryClassifier_run [''query'' \<mapsto> PInt 5] = Inl TypeError"
    by (simp add: QueryClassifier_run_def getitem_def)
  from present raised show ?thesis
    by simp
qed

text \<open>
  C7, amended. For every \<^verbatim>\<open>kwargs\<close> whose \<^verbatim>\<open>kwargs["query"]\<close> is a string,
  \<^verbatim>\<open>QueryClassifier.run\<close> returns the unchanged \<^verbatim>\<open>kwargs\<close> with the edge \<^verbatim>\<open>output_2\<close> if the
  character \<^verbatim>\<open>?\<close> occurs in the string and with \<^verbatim>\<open>output_1\<close> otherwise; the edge is one of
  the two edges that \<^verbatim>\<open>outgoing_edges = 2\<close> declares.
\<close>

theorem QueryClassifier_run_routes:
  assumes "kwargs ''query'' = Some (PStr q)"
  shows "QueryClassifier_run kwargs
           = Inr (kwargs, if CHR ''?'' \<in> set q then ''output_2'' else ''output_1'')
         \<and> (if CHR ''?'' \<in> set q then ''output_2'' else ''output_1'')
             \<in> set (edge_names (outgoing_edges QueryClassifier))"
proof
  from assms have "getitem kwargs ''query'' = Inr (PStr q)"
    by (rule getitem_present)
  then show "QueryClassifier_run kwargs
           = Inr (kwargs, if CHR ''?'' \<in> set q then ''output_2'' else ''output_1'')"
    by (simp add: QueryClassifier_run_def sublist_single)
next
  show "(if CHR ''?'' \<in> set q then ''output_2'' else ''output_1'')
      \<in> set (edge_names (outgoing_edges QueryClassifier))"
    by (simp add: edge_names_2)
qed

theorem QueryClassifier_run_routes_witness:
  "[''query'' \<mapsto> PStr ''Who is the father of Arya Stark?'', ''top_k_retriever'' \<mapsto> PInt 10]
       ''query'' = Some (PStr ''Who is the father of Arya Stark?'')
   \<and> QueryClassifier_run
        [''query'' \<mapsto> PStr ''Who is the father of Arya Stark?'', ''top_k_retriever'' \<mapsto> PInt 10]
      = Inr ([''query'' \<mapsto> PStr ''Who is the father of Arya Stark?'',
              ''top_k_retriever'' \<mapsto> PInt 10], ''output_2'')
   \<and> [''query'' \<mapsto> PStr ''Arya Stark father'', ''top_k_retriever'' \<mapsto> PInt 10]
       ''query'' = Some (PStr ''Arya Stark father'')
   \<and> QueryClassifier_run
        [''query'' \<mapsto> PStr ''Arya Stark father'', ''top_k_retriever'' \<mapsto> PInt 10]
      = Inr ([''query'' \<mapsto> PStr ''Arya Stark father'', ''top_k_retriever'' \<mapsto> PInt 10],
             ''output_1'')"
proof -
  have q2: "[''query'' \<mapsto> PStr ''Who is the father of Arya Stark?'',
             ''top_k_retriever'' \<mapsto> PInt 10] ''query''
      = Some (PStr ''Who is the father of Arya Stark?'')"
    by simp
  have q1: "[''query'' \<mapsto> PStr ''Arya Stark father'', ''top_k_retriever'' \<mapsto> PInt 10] ''query''
      = Some (PStr ''Arya Stark father'')"
    by simp
  show ?thesis
    using q2 q1
      QueryClassifier_run_routes
        [of "[''query'' \<mapsto> PStr ''Who is the father of Arya Stark?'',
              ''top_k_retriever'' \<mapsto> PInt 10]" "''Who is the father of Arya Stark?''"]
      QueryClassifier_run_routes
        [of "[''query'' \<mapsto> PStr ''Arya Stark father'', ''top_k_retriever'' \<mapsto> PInt 10]"
            "''Arya Stark father''"]
    by simp
qed

text \<open>
  C8. Neither \<^verbatim>\<open>run\<close> handles an error. \<^verbatim>\<open>QueryClassifier.run\<close> fails exactly when the lookup
  \<^verbatim>\<open>kwargs["query"]\<close> or the test \<^verbatim>\<open>"?" in ...\<close> fails, and then with that very error: in
  particular a \<^verbatim>\<open>kwargs\<close> without the key \<^verbatim>\<open>query\<close> gives \<^verbatim>\<open>KeyError('query')\<close> to the caller.
  \<^verbatim>\<open>NodeTemplate.run\<close> performs no operation that can fail, and never fails.
\<close>

theorem run_failures_propagate:
  "(kwargs ''query'' = None \<longrightarrow> QueryClassifier_run kwargs = Inl (KeyError ''query''))
   \<and> (QueryClassifier_run kwargs = Inl e \<longleftrightarrow>
        getitem kwargs ''query'' = Inl e
        \<or> (\<exists>v. getitem kwargs ''query'' = Inr v \<and> contains ''?'' v = Inl e))
   \<and> NodeTemplate_run kwargs \<noteq> Inl e"
proof (intro conjI impI)
  assume "kwargs ''query'' = None"
  then have "getitem kwargs ''query'' = Inl (KeyError ''query'')"
    by (rule getitem_absent)
  then show "QueryClassifier_run kwargs = Inl (KeyError ''query'')"
    by (simp add: QueryClassifier_run_def)
next
  show "QueryClassifier_run kwargs = Inl e \<longleftrightarrow>
        getitem kwargs ''query'' = Inl e
        \<or> (\<exists>v. getitem kwargs ''query'' = Inr v \<and> contains ''?'' v = Inl e)"
    by (auto simp: QueryClassifier_run_def split: sum.splits)
next
  show "NodeTemplate_run kwargs \<noteq> Inl e"
    by (simp add: NodeTemplate_run_def)
qed

theorem run_failures_propagate_witness:
  "[''top_k_retriever'' \<mapsto> PInt 10] ''query'' = None
   \<and> QueryClassifier_run [''top_k_retriever'' \<mapsto> PInt 10] = Inl (KeyError ''query'')
   \<and> getitem [''query'' \<mapsto> PInt 5] ''query'' = Inr (PInt 5)
   \<and> contains ''?'' (PInt 5) = Inl TypeError
   \<and> QueryClassifier_run [''query'' \<mapsto> PInt 5] = Inl TypeError"
proof -
  have absent: "[''top_k_retriever'' \<mapsto> PInt 10] ''query'' = None"
    by simp
  have lookup: "getitem [''query'' \<mapsto> PInt 5] ''query'' = Inr (PInt 5)"
    by (simp add: getitem_def)
  have test: "contains ''?'' (PInt 5) = Inl TypeError"
    by simp
  from lookup test
  have "getitem [''query'' \<mapsto> PInt 5] ''query'' = Inl TypeError
      \<or> (\<exists>v. getitem [''query'' \<mapsto> PInt 5] ''query'' = Inr v \<and> contains ''?'' v = Inl TypeError)"
    by blast
  with run_failures_propagate [of "[''query'' \<mapsto> PInt 5]" TypeError]
  have type_error: "QueryClassifier_run [''query'' \<mapsto> PInt 5] = Inl TypeError"
    by blast
  from run_failures_propagate [of "[''top_k_retriever'' \<mapsto> PInt 10]" TypeError] absent
  have key_error: "QueryClassifier_run [''top_k_retriever'' \<mapsto> PInt 10] = Inl (KeyError ''query'')"
    by blast
  from absent key_error lookup test type_error show ?thesis
    by (intro conjI)
qed

text \<open>
  C9. \<^verbatim>\<open>NodeTemplate.run\<close> returns its \<^verbatim>\<open>kwargs\<close> unchanged together with the edge
  \<^verbatim>\<open>output_1\<close>, the one edge that its \<^verbatim>\<open>outgoing_edges = 1\<close> declares.
\<close>

theorem NodeTemplate_run_passthrough:
  "NodeTemplate_run kwargs = Inr (kwargs, ''output_1'')
   \<and> outgoing_edges NodeTemplate = 1
   \<and> edge_names (outgoing_edges NodeTemplate) = [''output_1'']"
  by (simp add: NodeTemplate_run_def edge_names_1)

end
